theory Spec2Isabelle
  imports Complex_Main "HOL-Library.AList" "HOL-Library.Sublist"
begin

section \<open>Python values and their text\<close>

text \<open>
  A Python \<open>str\<close> is a sequence of Unicode code points, which is what \<open>re\<close> and slicing
  count; it is modelled as a list of code points. \<open>py\<close> embeds an ASCII literal.
\<close>

type_synonym pystr = "nat list"

definition py :: "string \<Rightarrow> pystr" where
  "py s = map of_char s"

text \<open>
  The class \<open>\d\<close> of a \<open>str\<close> pattern is the Unicode category Nd (\<open>Py_UNICODE_ISDECIMAL\<close>).
  Its members come in runs of ten, one run per script, from the digit zero of the script;
  \<open>Nd_zeros\<close> lists the zero of every run of Unicode 14.0 (the database of Python 3.11).
\<close>

definition Nd_zeros :: "nat list" where
  "Nd_zeros =
    [0x30, 0x660, 0x6F0, 0x7C0, 0x966, 0x9E6, 0xA66, 0xAE6, 0xB66, 0xBE6, 0xC66, 0xCE6,
     0xD66, 0xDE6, 0xE50, 0xED0, 0xF20, 0x1040, 0x1090, 0x17E0, 0x1810, 0x1946, 0x19D0,
     0x1A80, 0x1A90, 0x1B50, 0x1BB0, 0x1C40, 0x1C50, 0xA620, 0xA8D0, 0xA900, 0xA9D0,
     0xA9F0, 0xAA50, 0xABF0, 0xFF10, 0x104A0, 0x10D30, 0x11066, 0x110F0, 0x11136,
     0x111D0, 0x112F0, 0x11450, 0x114D0, 0x11650, 0x116C0, 0x11730, 0x118E0, 0x11950,
     0x11C50, 0x11D50, 0x11DA0, 0x16A60, 0x16AC0, 0x16B50, 0x1D7CE, 0x1D7D8, 0x1D7E2,
     0x1D7EC, 0x1D7F6, 0x1E140, 0x1E2F0, 0x1E950, 0x1FBF0]"

definition is_decimal :: "nat \<Rightarrow> bool" where
  "is_decimal c = list_ex (\<lambda>z. z \<le> c \<and> c \<le> z + 9) Nd_zeros"

definition ascii_digit :: "nat \<Rightarrow> bool" where
  "ascii_digit c = (48 \<le> c \<and> c \<le> 57)"

text \<open>
  A Python float is given by what \<open>str\<close> reads of it: its sign, the digits of its shortest
  decimal expansion that reads back as the same double, and the position \<open>decpt\<close> of the
  decimal point relative to the first digit (the value is \<open>0.d1d2... * 10 ^ decpt\<close>).
  \<open>1e22\<close> is \<open>Finite False [1] 23\<close>, \<open>712345678.0\<close> is
  \<open>Finite False [7,1,2,3,4,5,6,7,8] 9\<close>.
\<close>

datatype pyfloat = Finite bool "nat list" int | Infinity bool | NaN

datatype pyval = PyNone | PyBool bool | PyInt int | PyFloat pyfloat | PyStr pystr

text \<open>\<open>pd.isna\<close> on a scalar: \<open>None\<close> and the float NaN are missing, nothing else is.\<close>

fun isna :: "pyval \<Rightarrow> bool" where
  "isna PyNone = True"
| "isna (PyFloat NaN) = True"
| "isna _ = False"

fun str_nat :: "nat \<Rightarrow> pystr" where
  "str_nat n = (if n < 10 then [48 + n] else str_nat (n div 10) @ [48 + n mod 10])"

declare str_nat.simps [simp del]

definition str_int :: "int \<Rightarrow> pystr" where
  "str_int i = (if i < 0 then 45 # str_nat (nat (- i)) else str_nat (nat i))"

text \<open>
  \<open>str\<close> of a float is its \<open>repr\<close>: exponent notation when \<open>decpt \<le> -4\<close> or
  \<open>decpt > 16\<close> (one digit, a point and the other digits if any, \<open>e\<close>, the sign of the
  exponent and at least two digits of it), positional notation with a point otherwise
  (\<open>.0\<close> added to a whole number).
\<close>

definition str_exponent :: "int \<Rightarrow> pystr" where
  "str_exponent e =
     (if e < 0 then 45 else 43) #
     (if \<bar>e\<bar> < 10 then 48 # str_nat (nat \<bar>e\<bar>) else str_nat (nat \<bar>e\<bar>))"

fun float_repr :: "pyfloat \<Rightarrow> pystr" where
  "float_repr NaN = py ''nan''"
| "float_repr (Infinity neg) = (if neg then py ''-inf'' else py ''inf'')"
| "float_repr (Finite neg ds decpt) =
     (if neg then [45] else []) @
     (let cs = map (\<lambda>d. 48 + d) ds; n = int (length ds) in
      if decpt \<le> - 4 \<or> decpt > 16 then
        take 1 cs @ (if 1 < n then 46 # drop 1 cs else []) @ 101 # str_exponent (decpt - 1)
      else if decpt \<le> 0 then
        py ''0.'' @ replicate (nat (- decpt)) 48 @ cs
      else if n \<le> decpt then
        cs @ replicate (nat (decpt - n)) 48 @ py ''.0''
      else
        take (nat decpt) cs @ 46 # drop (nat decpt) cs)"

fun py_str :: "pyval \<Rightarrow> pystr" where
  "py_str PyNone = py ''None''"
| "py_str (PyBool b) = (if b then py ''True'' else py ''False'')"
| "py_str (PyInt i) = str_int i"
| "py_str (PyFloat f) = float_repr f"
| "py_str (PyStr s) = s"

section \<open>The key normalizer\<close>

text \<open>\<open>re.sub(r"\D", "", s)\<close> keeps the characters of class \<open>\d\<close>, in order.\<close>

definition re_sub_nondigits :: "pystr \<Rightarrow> pystr" where
  "re_sub_nondigits s = filter is_decimal s"

text \<open>The slice \<open>digits[-9:]\<close> starts at \<open>max (len - 9) 0\<close>; the subtraction of \<open>nat\<close> stops at 0.\<close>

definition last_nine :: "'a list \<Rightarrow> 'a list" where
  "last_nine xs = drop (length xs - 9) xs"

definition extract_last_nine_digits :: "pyval \<Rightarrow> pystr" where
  "extract_last_nine_digits v =
     (if isna v then [] else last_nine (re_sub_nondigits (py_str v)))"

section \<open>Tables\<close>

text \<open>
  \<open>load_data\<close> reads both workbooks with \<open>dtype=str\<close>: every cell of a loaded table is a
  \<open>str\<close> or the float NaN of an empty cell (\<open>None\<close> here). A workbook is the list of its
  columns, in sheet order, each with its header (\<open>read_excel\<close> makes headers distinct).
\<close>

type_synonym cell = "pystr option"

type_synonym workbook = "(pystr \<times> cell list) list"

text \<open>
  A DataFrame is the ordered list of its named columns. A column is typed as pandas types
  it: an object column of loaded cells, the int64 column of the match counts, the float64
  column of the amounts. Amounts are exact reals: the rounding of IEEE doubles, infinities
  and NaN results of arithmetic are outside the model.
\<close>

datatype column = StrCol "cell list" | IntCol "int list" | FloatCol "real list"

type_synonym dataframe = "(pystr \<times> column) list"

definition read_excel :: "workbook \<Rightarrow> dataframe" where
  "read_excel wb = map (\<lambda>(name, cells). (name, StrCol cells)) wb"

fun col_length :: "column \<Rightarrow> nat" where
  "col_length (StrCol cs) = length cs"
| "col_length (IntCol ns) = length ns"
| "col_length (FloatCol rs) = length rs"

text \<open>\<open>len(df)\<close>: the number of rows, which every column of a frame has.\<close>

fun df_len :: "dataframe \<Rightarrow> nat" where
  "df_len [] = 0"
| "df_len ((name, col) # df) = col_length col"

fun cell_value :: "cell \<Rightarrow> pyval" where
  "cell_value None = PyFloat NaN"
| "cell_value (Some s) = PyStr s"

text \<open>
  \<open>Series.map(f)\<close> hands \<open>f\<close> the elements as Python objects. The digits of a float64
  element are made by the interpreter's shortest-digits routine, which is taken as the
  parameter \<open>dtoa\<close>; the columns that \<open>main\<close> maps are object columns and never reach it.
\<close>

fun python_values :: "(real \<Rightarrow> pyfloat) \<Rightarrow> column \<Rightarrow> pyval list" where
  "python_values dtoa (StrCol cs) = map cell_value cs"
| "python_values dtoa (IntCol ns) = map PyInt ns"
| "python_values dtoa (FloatCol rs) = map (\<lambda>r. PyFloat (dtoa r)) rs"

text \<open>
  \<open>pd.to_numeric(column, errors="coerce")\<close>: the number each element reads as, NaN
  (\<open>None\<close>) where it does not parse. How pandas reads one text cell is library code, taken
  as the parameter \<open>to_num\<close>. \<open>fillna(0.0)\<close> then replaces every NaN by 0.
\<close>

fun to_numeric :: "(pystr \<Rightarrow> real option) \<Rightarrow> column \<Rightarrow> real option list" where
  "to_numeric to_num (StrCol cs) = map (\<lambda>c. case c of None \<Rightarrow> None | Some s \<Rightarrow> to_num s) cs"
| "to_numeric to_num (IntCol ns) = map (\<lambda>n. Some (real_of_int n)) ns"
| "to_numeric to_num (FloatCol rs) = map Some rs"

definition fillna :: "real \<Rightarrow> real option list \<Rightarrow> real list" where
  "fillna d xs = map (\<lambda>x. case x of None \<Rightarrow> d | Some r \<Rightarrow> r) xs"

text \<open>
  \<open>value_counts\<close> and \<open>groupby(...).sum()\<close> run over the rows once and add each row to the
  entry of its key, making the entry when the key is new. The order of the resulting index
  is not modelled: the tables are only read through \<open>get\<close>.
\<close>

fun add_at :: "pystr \<Rightarrow> 'a::plus \<Rightarrow> (pystr \<times> 'a) list \<Rightarrow> (pystr \<times> 'a) list" where
  "add_at k v [] = [(k, v)]"
| "add_at k v ((k', a) # t) = (if k' = k then (k', a + v) # t else (k', a) # add_at k v t)"

definition value_counts :: "pystr list \<Rightarrow> (pystr \<times> nat) list" where
  "value_counts ks = fold (\<lambda>k t. add_at k 1 t) ks []"

definition groupby_sum :: "pystr list \<Rightarrow> real list \<Rightarrow> (pystr \<times> real) list" where
  "groupby_sum ks vs = fold (\<lambda>(k, v) t. add_at k v t) (zip ks vs) []"

text \<open>\<open>Series.get(key, default)\<close> on a table indexed by strings.\<close>

fun series_get :: "(pystr \<times> 'a) list \<Rightarrow> pyval \<Rightarrow> 'a \<Rightarrow> 'a" where
  "series_get t (PyStr k) d = (case map_of t k of None \<Rightarrow> d | Some v \<Rightarrow> v)"
| "series_get t _ d = d"

definition index_of :: "'a \<Rightarrow> 'a list \<Rightarrow> nat" where
  "index_of x xs = length (takeWhile (\<lambda>y. y \<noteq> x) xs)"

section \<open>Frames as objects\<close>

text \<open>
  Frames are objects: a variable holds a reference, and item assignment and
  \<open>drop(inplace=True)\<close> change the object that every holder of the reference sees. The heap
  is the list of the frames allocated so far, a reference is a position in it. References
  are only made by \<open>alloc\<close>, so a variable never holds a dangling one.
\<close>

type_synonym ref = nat

type_synonym heap = "dataframe list"

definition alloc :: "dataframe \<Rightarrow> heap \<Rightarrow> ref \<times> heap" where
  "alloc df h = (length h, h @ [df])"

definition load_data :: "workbook \<Rightarrow> workbook \<Rightarrow> heap \<Rightarrow> (ref \<times> ref) \<times> heap" where
  "load_data repayments_xlsx writeoffs_xlsx h =
     (let (r, h1) = alloc (read_excel repayments_xlsx) h;
          (w, h2) = alloc (read_excel writeoffs_xlsx) h1
      in ((r, w), h2))"

definition df_copy :: "ref \<Rightarrow> heap \<Rightarrow> ref \<times> heap" where
  "df_copy r h = alloc (h ! r) h"

text \<open>\<open>df[name]\<close>; \<open>None\<close> is the KeyError of a name that is no column.\<close>

definition df_getitem :: "heap \<Rightarrow> ref \<Rightarrow> pystr \<Rightarrow> column option" where
  "df_getitem h r name = map_of (h ! r) name"

definition df_columns :: "heap \<Rightarrow> ref \<Rightarrow> pystr list" where
  "df_columns h r = map fst (h ! r)"

text \<open>\<open>df[name] = col\<close> replaces the column of that name where it stands, or adds it last.\<close>

definition df_setitem :: "ref \<Rightarrow> pystr \<Rightarrow> column \<Rightarrow> heap \<Rightarrow> heap" where
  "df_setitem r name col h = h[r := AList.update name col (h ! r)]"

text \<open>\<open>df.drop(columns=[name], inplace=True)\<close>; \<open>None\<close> is its KeyError.\<close>

definition df_drop :: "ref \<Rightarrow> pystr \<Rightarrow> heap \<Rightarrow> heap option" where
  "df_drop r name h =
     (if name \<in> set (df_columns h r) then Some (h[r := AList.delete name (h ! r)]) else None)"

section \<open>The aggregates of the repayments\<close>

text \<open>
  What the page shows besides the metrics and the table: \<open>st.warning\<close> and \<open>st.error\<close>
  messages, in order.
\<close>

datatype event = Warning string | Error string

text \<open>
  \<open>compute_phone_aggregates\<close> raises a KeyError (\<open>Inl\<close>, with the message) for a missing
  column, before anything else; otherwise it returns the warning it may have shown, the
  counts and the sums per key. It reads the frame and changes nothing.
\<close>

definition compute_phone_aggregates ::
  "(pystr \<Rightarrow> real option) \<Rightarrow> (real \<Rightarrow> pyfloat) \<Rightarrow> dataframe \<Rightarrow>
     string + (event list \<times> (pystr \<times> nat) list \<times> (pystr \<times> real) list)" where
  "compute_phone_aggregates to_num dtoa repayments =
     (case map_of repayments (py ''Phone Number'') of
        None \<Rightarrow> Inl ''Expected 'Phone Number' column (column S) in Repayments.xlsx.''
      | Some phone \<Rightarrow>
     (case map_of repayments (py ''Total Repaid:'') of
        None \<Rightarrow> Inl ''Expected 'Total Repaid:' column in Repayments.xlsx.''
      | Some repaid \<Rightarrow>
          let col_idx = index_of (py ''Phone Number'') (map fst repayments);
              warned =
                (if col_idx \<noteq> 18
                 then [Warning (CHR 0x27 # ''Phone Number' is not at expected column S; proceeding with the named column.'')]
                 else []);
              repayments_last9 = map extract_last_nine_digits (python_values dtoa phone);
              amounts = fillna 0 (to_numeric to_num repaid);
              counts = value_counts repayments_last9;
              sums' = groupby_sum repayments_last9 amounts
          in Inr (warned, counts, sums')))"

section \<open>The page\<close>

record kpis =
  num_writeoffs :: nat
  total_written_off :: real
  total_repaid_for_writeoffs :: real
  percent_repaid :: real

text \<open>
  How a run ends: stopped after an error message (\<open>return\<close>), by an exception that
  nothing catches, or with the four metrics and the table shown and offered for download.
\<close>

datatype exn = KeyError | ZeroDivisionError

datatype outcome = Stopped | Uncaught exn | Displayed kpis dataframe

record page =
  events :: "event list"
  outcome :: outcome

text \<open>\<open>str\<close> of a KeyError is the \<open>repr\<close> of its message: for these messages, which hold
  single quotes and no double quote, the message between double quotes.\<close>

definition str_KeyError :: "string \<Rightarrow> string" where
  "str_KeyError msg = CHR 0x22 # msg @ [CHR 0x22]"

fun join :: "string \<Rightarrow> string list \<Rightarrow> string" where
  "join sep [] = []"
| "join sep [x] = x"
| "join sep (x # y # ys) = x @ sep @ join sep (y # ys)"

text \<open>\<open>a / b\<close> on floats raises ZeroDivisionError (\<open>None\<close>) when \<open>b\<close> is zero.\<close>

definition truediv :: "real \<Rightarrow> real \<Rightarrow> real option" where
  "truediv a b = (if b = 0 then None else Some (a / b))"

text \<open>
  Lines 97 to 101 of \<open>main\<close>: the copy of the write-offs frame, the scratch column of the
  keys, the two derived columns and the removal of the scratch column, all on the copy.
  \<open>None\<close> is a KeyError that nothing catches.
\<close>

definition augment ::
  "(real \<Rightarrow> pyfloat) \<Rightarrow> (pystr \<times> nat) list \<Rightarrow> (pystr \<times> real) list \<Rightarrow> ref \<Rightarrow> heap \<Rightarrow>
     (ref \<times> heap) option" where
  "augment dtoa phone_last9_counts phone_last9_amount_sums writeoffs_df h =
     (let (writeoffs_df, h) = df_copy writeoffs_df h in
      case df_getitem h writeoffs_df (py ''mobile'') of None \<Rightarrow> None | Some mobile \<Rightarrow>
      let h = df_setitem writeoffs_df (py ''last9_mobile'')
                (StrCol (map (\<lambda>v. Some (extract_last_nine_digits v)) (python_values dtoa mobile))) h in
      case df_getitem h writeoffs_df (py ''last9_mobile'') of None \<Rightarrow> None | Some last9 \<Rightarrow>
      let h = df_setitem writeoffs_df (py ''Repayment Phone Matches'')
                (IntCol (map (\<lambda>x. int (series_get phone_last9_counts x 0)) (python_values dtoa last9))) h in
      case df_getitem h writeoffs_df (py ''last9_mobile'') of None \<Rightarrow> None | Some last9 \<Rightarrow>
      let h = df_setitem writeoffs_df (py ''amount repayed'')
                (FloatCol (map (\<lambda>x. series_get phone_last9_amount_sums x 0) (python_values dtoa last9))) h in
      case df_drop writeoffs_df (py ''last9_mobile'') h of None \<Rightarrow> None | Some h \<Rightarrow>
      Some (writeoffs_df, h))"

text \<open>
  \<open>main\<close>, from the check of the two files to the table on the page. The two workbooks are
  \<open>None\<close> when the file is missing. The result is the page and the frames left in memory.
\<close>

definition main ::
  "(pystr \<Rightarrow> real option) \<Rightarrow> (real \<Rightarrow> pyfloat) \<Rightarrow> workbook option \<Rightarrow> workbook option \<Rightarrow>
     page \<times> heap" where
  "main to_num dtoa repayments_xlsx writeoffs_xlsx =
     (let missing_files =
            (case repayments_xlsx of None \<Rightarrow> [''Repayments.xlsx''] | Some _ \<Rightarrow> []) @
            (case writeoffs_xlsx of None \<Rightarrow> [''writeoffs.xlsx''] | Some _ \<Rightarrow> [])
      in
      case (repayments_xlsx, writeoffs_xlsx) of
        (Some repayments_wb, Some writeoffs_wb) \<Rightarrow>
          (let ((repayments_df, writeoffs_df), h) = load_data repayments_wb writeoffs_wb [] in
           case compute_phone_aggregates to_num dtoa (h ! repayments_df) of
             Inl exc \<Rightarrow> (\<lparr>events = [Error (str_KeyError exc)], outcome = Stopped\<rparr>, h)
           | Inr (warned, phone_last9_counts, phone_last9_amount_sums) \<Rightarrow>
               if py ''mobile'' \<notin> set (df_columns h writeoffs_df) then
                 (\<lparr>events = warned @ [Error ''Expected 'mobile' column (column D) in writeoffs.xlsx.''],
                   outcome = Stopped\<rparr>, h)
               else
                 let w_col_idx = index_of (py ''mobile'') (df_columns h writeoffs_df);
                     warned =
                       warned @
                       (if w_col_idx \<noteq> 3
                        then [Warning (CHR 0x27 # ''mobile' is not at expected column D; proceeding with the named column.'')]
                        else [])
                 in
                 case augment dtoa phone_last9_counts phone_last9_amount_sums writeoffs_df h of
                   None \<Rightarrow> (\<lparr>events = warned, outcome = Uncaught KeyError\<rparr>, h)
                 | Some (writeoffs_df, h) \<Rightarrow>
                 let num_writeoffs = df_len (h ! writeoffs_df) in
                 case df_getitem h writeoffs_df (py ''Total Writtenoff Derived'') of
                   None \<Rightarrow>
                     (\<lparr>events =
                         warned @ [Error ''Expected 'Total Writtenoff Derived' column in writeoffs.xlsx.''],
                       outcome = Stopped\<rparr>, h)
                 | Some derived \<Rightarrow>
                 let total_written_off = sum_list (fillna 0 (to_numeric to_num derived)) in
                 case df_getitem h writeoffs_df (py ''amount repayed'') of
                   None \<Rightarrow> (\<lparr>events = warned, outcome = Uncaught KeyError\<rparr>, h)
                 | Some repayed \<Rightarrow>
                 let total_repaid_for_writeoffs = sum_list (fillna 0 (to_numeric to_num repayed)) in
                 if total_written_off > 0 then
                   (case truediv total_repaid_for_writeoffs total_written_off of
                      None \<Rightarrow> (\<lparr>events = warned, outcome = Uncaught ZeroDivisionError\<rparr>, h)
                    | Some q \<Rightarrow>
                        (\<lparr>events = warned,
                          outcome = Displayed
                            \<lparr>num_writeoffs = num_writeoffs, total_written_off = total_written_off,
                             total_repaid_for_writeoffs = total_repaid_for_writeoffs,
                             percent_repaid = q * 100\<rparr>
                            (h ! writeoffs_df)\<rparr>, h))
                 else
                   (\<lparr>events = warned,
                     outcome = Displayed
                       \<lparr>num_writeoffs = num_writeoffs, total_written_off = total_written_off,
                        total_repaid_for_writeoffs = total_repaid_for_writeoffs,
                        percent_repaid = 0\<rparr>
                       (h ! writeoffs_df)\<rparr>, h))
      | _ \<Rightarrow>
          (\<lparr>events =
              [Error (''Missing required file(s): '' @ join '', '' missing_files @
                      ''. Place them next to app.py and reload.'')],
            outcome = Stopped\<rparr>, []))"

section \<open>Reference renderings\<close>




section \<open>Reference definitions\<close>

text \<open>
  The key of a loaded cell and the amount of a loaded cell (0 for an empty cell and for a
  text that does not read as a number), and, by direct scan of the repayment rows, the
  number of rows with the key of a write-off cell and the sum of their amounts. A row of
  the repayments is a pair of \<open>zip phone repaid\<close>. These follow the wording of the
  specification; the code goes through the two tables instead.
\<close>

definition key_of :: "cell \<Rightarrow> pystr" where
  "key_of c = extract_last_nine_digits (cell_value c)"

definition amount_of :: "(pystr \<Rightarrow> real option) \<Rightarrow> cell \<Rightarrow> real" where
  "amount_of to_num c =
     (case c of None \<Rightarrow> 0 | Some s \<Rightarrow> (case to_num s of None \<Rightarrow> 0 | Some r \<Rightarrow> r))"

definition rows_with_key :: "pystr \<Rightarrow> cell list \<Rightarrow> cell list \<Rightarrow> (cell \<times> cell) list" where
  "rows_with_key k phone repaid = filter (\<lambda>(p, a). key_of p = k) (zip phone repaid)"

definition match_count :: "cell list \<Rightarrow> cell \<Rightarrow> nat" where
  "match_count phone m = length (filter (\<lambda>p. key_of p = key_of m) phone)"

definition amount_repaid :: "(pystr \<Rightarrow> real option) \<Rightarrow> cell list \<Rightarrow> cell list \<Rightarrow> cell \<Rightarrow> real" where
  "amount_repaid to_num phone repaid m =
     sum_list (map (\<lambda>(p, a). amount_of to_num a) (rows_with_key (key_of m) phone repaid))"

text \<open>The frame that lines 98 to 101 leave of a frame \<open>df\<close> whose \<open>mobile\<close> column holds \<open>mobile\<close>.\<close>

definition augmented ::
  "dataframe \<Rightarrow> cell list \<Rightarrow> (pystr \<times> nat) list \<Rightarrow> (pystr \<times> real) list \<Rightarrow> dataframe" where
  "augmented df mobile counts sums' =
     AList.delete (py ''last9_mobile'')
       (AList.update (py ''amount repayed'')
          (FloatCol (map (\<lambda>m. series_get sums' (PyStr (key_of m)) 0) mobile))
          (AList.update (py ''Repayment Phone Matches'')
             (IntCol (map (\<lambda>m. int (series_get counts (PyStr (key_of m)) 0)) mobile))
             (AList.update (py ''last9_mobile'') (StrCol (map (\<lambda>m. Some (key_of m)) mobile)) df)))"

section \<open>Example inputs\<close>

text \<open>
  One reading that \<open>pd.to_numeric\<close> makes: a text of ASCII digits is the whole number it
  writes. It stands for \<open>to_num\<close> where \<open>main\<close> is run on an example, as
  \<open>no_float_digits\<close> stands for \<open>dtoa\<close>, which no example reaches.
\<close>

definition read_plain :: "pystr \<Rightarrow> real option" where
  "read_plain s =
     (if s \<noteq> [] \<and> list_all ascii_digit s
      then Some (real (foldl (\<lambda>n c. 10 * n + (c - 48)) 0 s)) else None)"

definition no_float_digits :: "real \<Rightarrow> pyfloat" where
  "no_float_digits r = Finite False [0] 1"

text \<open>The end-to-end scenario of the specification.\<close>

definition scenario_repayments :: workbook where
  "scenario_repayments =
     [(py ''Phone Number'', [Some (py ''0712345678''), Some (py ''255712345678'')]),
      (py ''Total Repaid:'', [Some (py ''100''), Some (py ''50'')])]"

definition scenario_writeoffs :: workbook where
  "scenario_writeoffs =
     [(py ''mobile'', [Some (py ''+255712345678'')]),
      (py ''Total Writtenoff Derived'', [Some (py ''200'')])]"

text \<open>
  Write-offs that already have a column of each name the code writes to (an exported result
  read again, with its scratch column); write-offs whose amount does not read as a number;
  write-offs without the \<open>mobile\<close> column; and two write-off rows of one borrower with a
  single repayment.
\<close>

definition reexported_writeoffs :: workbook where
  "reexported_writeoffs =
     [(py ''mobile'', [Some (py ''+255712345678'')]),
      (py ''last9_mobile'', [Some (py ''712345678'')]),
      (py ''Repayment Phone Matches'', [Some (py ''7'')]),
      (py ''Total Writtenoff Derived'', [Some (py ''200'')])]"

definition unreadable_writeoffs :: workbook where
  "unreadable_writeoffs =
     [(py ''mobile'', [Some (py ''+255712345678'')]),
      (py ''Total Writtenoff Derived'', [Some (py ''n/a'')])]"

definition headless_writeoffs :: workbook where
  "headless_writeoffs = [(py ''Total Writtenoff Derived'', [Some (py ''200'')])]"

definition shared_repayments :: workbook where
  "shared_repayments =
     [(py ''Phone Number'', [Some (py ''0712345678'')]),
      (py ''Total Repaid:'', [Some (py ''100'')])]"

definition shared_writeoffs :: workbook where
  "shared_writeoffs =
     [(py ''mobile'', [Some (py ''0712345678''), Some (py ''+255712345678'')]),
      (py ''Total Writtenoff Derived'', [Some (py ''60''), Some (py ''60'')])]"


section \<open>Properties of the key normalizer\<close>

lemma is_decimal_below_0660: "c < 0x660 \<Longrightarrow> is_decimal c = ascii_digit c"
  unfolding is_decimal_def Nd_zeros_def ascii_digit_def by auto

lemma is_decimal_digit_char: "d < 10 \<Longrightarrow> is_decimal (48 + d)"
  by (simp add: is_decimal_below_0660 ascii_digit_def)















lemma filter_digit_chars:
  "list_all (\<lambda>d. d < 10) ds \<Longrightarrow> filter is_decimal (map (\<lambda>d. 48 + d) ds) = map (\<lambda>d. 48 + d) ds"
  by (induction ds) (simp_all add: is_decimal_digit_char)







section \<open>Properties of the aggregates and of the page\<close>

lemma column_names_distinct:
  "py ''last9_mobile'' \<noteq> py ''mobile''"
  "py ''last9_mobile'' \<noteq> py ''Repayment Phone Matches''"
  "py ''last9_mobile'' \<noteq> py ''amount repayed''"
  "py ''last9_mobile'' \<noteq> py ''Total Writtenoff Derived''"
  "py ''Repayment Phone Matches'' \<noteq> py ''amount repayed''"
  "py ''Repayment Phone Matches'' \<noteq> py ''Total Writtenoff Derived''"
  "py ''Repayment Phone Matches'' \<noteq> py ''mobile''"
  "py ''amount repayed'' \<noteq> py ''Total Writtenoff Derived''"
  "py ''amount repayed'' \<noteq> py ''mobile''"
  by (simp_all add: py_def)

lemma map_of_read_excel: "map_of (read_excel wb) name = map_option StrCol (map_of wb name)"
  by (induction wb) (auto simp: read_excel_def)

lemma columns_read_excel: "map fst (read_excel wb) = map fst wb"
  by (induction wb) (auto simp: read_excel_def)

lemma augment_eq:
  assumes "w < length h" and "map_of (h ! w) (py ''mobile'') = Some (StrCol mobile)"
  shows "augment dtoa counts sums' w h = Some (length h, h @ [augmented (h ! w) mobile counts sums'])"
proof -
  have nm: "py ''mobile'' \<noteq> py ''last9_mobile''" "py ''Repayment Phone Matches'' \<noteq> py ''last9_mobile''"
           "py ''amount repayed'' \<noteq> py ''last9_mobile''"
    using column_names_distinct by auto
  have hw: "(h @ [h ! w]) ! length h = h ! w" by simp
  show ?thesis
    using assms nm
    by (simp add: augment_def df_copy_def alloc_def df_getitem_def df_setitem_def df_drop_def
        df_columns_def augmented_def update_conv' key_of_def comp_def dom_update
        dom_map_of_conv_image_fst [symmetric])
qed

lemma map_of_add_at:
  "map_of (add_at k v t) x =
     (if x = k then Some (case map_of t k of None \<Rightarrow> v | Some a \<Rightarrow> a + v) else map_of t x)"
  by (induction t) auto

lemma series_get_add_at:
  fixes v :: "'a::monoid_add"
  shows "series_get (add_at k v t) (PyStr x) 0 =
     (if x = k then series_get t (PyStr x) 0 + v else series_get t (PyStr x) 0)"
  by (simp add: map_of_add_at split: option.splits)

lemma series_get_fold_counts:
  "series_get (fold (\<lambda>k t. add_at k 1 t) ks t) (PyStr x) (0::nat) =
     series_get t (PyStr x) 0 + length (filter (\<lambda>k. k = x) ks)"
proof (induction ks arbitrary: t)
  case Nil
  then show ?case by simp
next
  case (Cons k ks)
  show ?case
    using Cons.IH [of "add_at k 1 t"] series_get_add_at [of k "1::nat" t x]
    by (simp del: series_get.simps)
qed

lemma series_get_value_counts:
  "series_get (value_counts ks) (PyStr x) 0 = length (filter (\<lambda>k. k = x) ks)"
  using series_get_fold_counts [of ks "[]" x] by (simp add: value_counts_def)

lemma series_get_fold_sums:
  "series_get (fold (\<lambda>(k, v) t. add_at k v t) kvs t) (PyStr x) (0::real) =
     series_get t (PyStr x) 0 + sum_list (map snd (filter (\<lambda>(k, v). k = x) kvs))"
proof (induction kvs arbitrary: t)
  case Nil
  then show ?case by simp
next
  case (Cons kv kvs)
  obtain k v where kv: "kv = (k, v)" by (cases kv)
  show ?case
    using Cons.IH [of "add_at k v t"] series_get_add_at [of k v t x]
    by (simp add: kv del: series_get.simps)
qed

lemma series_get_groupby_sum:
  "series_get (groupby_sum ks vs) (PyStr x) 0 =
     sum_list (map snd (filter (\<lambda>(k, v). k = x) (zip ks vs)))"
  using series_get_fold_sums [of "zip ks vs" "[]" x] by (simp add: groupby_sum_def)

lemma sum_counts_add_at: "sum_list (map snd (add_at k v t)) = sum_list (map snd t) + (v::nat)"
  by (induction t) auto

lemma sum_counts_fold:
  "sum_list (map snd (fold (\<lambda>k t. add_at k (1::nat) t) ks t)) = sum_list (map snd t) + length ks"
  by (induction ks arbitrary: t) (simp_all add: sum_counts_add_at)

lemma keys_add_at: "fst ` set (add_at k v t) = insert k (fst ` set t)"
  by (induction k v t rule: add_at.induct) auto

lemma distinct_add_at: "distinct (map fst t) \<Longrightarrow> distinct (map fst (add_at k v t))"
proof (induction t)
  case Nil
  then show ?case by simp
next
  case (Cons p t)
  obtain k' a where p: "p = (k', a)" by (cases p)
  from Cons show ?case
    using keys_add_at [of k v t] by (auto simp: p)
qed

lemma keys_fold_counts:
  "fst ` set (fold (\<lambda>k t. add_at k (1::nat) t) ks t) = set ks \<union> fst ` set t"
  by (induction ks arbitrary: t) (auto simp: keys_add_at)

lemma distinct_fold_counts:
  "distinct (map fst t) \<Longrightarrow> distinct (map fst (fold (\<lambda>k t. add_at k (1::nat) t) ks t))"
  by (induction ks arbitrary: t) (simp_all add: distinct_add_at)

lemma fillna_to_numeric_StrCol:
  "fillna 0 (to_numeric to_num (StrCol cs)) = map (amount_of to_num) cs"
  by (simp add: fillna_def amount_of_def comp_def split: option.splits)

lemma fillna_to_numeric_FloatCol: "fillna 0 (to_numeric to_num (FloatCol rs)) = rs"
  by (simp add: fillna_def comp_def)

lemma compute_phone_aggregates_eq:
  assumes "map_of wb (py ''Phone Number'') = Some phone"
      and "map_of wb (py ''Total Repaid:'') = Some repaid"
  shows "\<exists>warned. compute_phone_aggregates to_num dtoa (read_excel wb) =
           Inr (warned, value_counts (map key_of phone),
                groupby_sum (map key_of phone) (map (amount_of to_num) repaid)) \<and>
         (\<forall>e\<in>set warned. \<exists>m. e = Warning m)"
  using assms
  by (simp add: compute_phone_aggregates_def map_of_read_excel Let_def fillna_to_numeric_StrCol
      key_of_def [abs_def] comp_def del: to_numeric.simps)

lemma map_of_augmented_other:
  assumes "name \<noteq> py ''last9_mobile''" "name \<noteq> py ''Repayment Phone Matches''"
      and "name \<noteq> py ''amount repayed''"
  shows "map_of (augmented df mobile counts sums') name = map_of df name"
  using assms by (simp add: augmented_def delete_conv' update_conv')

lemma map_of_augmented_matches:
  "map_of (augmented df mobile counts sums') (py ''Repayment Phone Matches'') =
     Some (IntCol (map (\<lambda>m. int (series_get counts (PyStr (key_of m)) 0)) mobile))"
  using column_names_distinct by (simp add: augmented_def delete_conv' update_conv')

lemma map_of_augmented_repayed:
  "map_of (augmented df mobile counts sums') (py ''amount repayed'') =
     Some (FloatCol (map (\<lambda>m. series_get sums' (PyStr (key_of m)) 0) mobile))"
  using column_names_distinct by (simp add: augmented_def delete_conv' update_conv')

lemma main_displayed:
  fixes to_num :: "pystr \<Rightarrow> real option"
  assumes pn: "map_of repayments_wb (py ''Phone Number'') = Some phone"
      and tr: "map_of repayments_wb (py ''Total Repaid:'') = Some repaid"
      and mb: "map_of writeoffs_wb (py ''mobile'') = Some mobile"
      and wd: "map_of writeoffs_wb (py ''Total Writtenoff Derived'') = Some derived"
  defines "counts \<equiv> value_counts (map key_of phone)"
      and "sums' \<equiv> groupby_sum (map key_of phone) (map (amount_of to_num) repaid)"
  defines "aug \<equiv> augmented (read_excel writeoffs_wb) mobile counts sums'"
      and "written \<equiv> sum_list (map (amount_of to_num) derived)"
      and "paid \<equiv> sum_list (map (\<lambda>m. series_get sums' (PyStr (key_of m)) 0) mobile)"
  shows "\<exists>warned.
           main to_num dtoa (Some repayments_wb) (Some writeoffs_wb) =
             (\<lparr>events = warned,
               outcome = Displayed
                 \<lparr>num_writeoffs = df_len aug, total_written_off = written,
                  total_repaid_for_writeoffs = paid,
                  percent_repaid = (if 0 < written then paid / written * 100 else 0)\<rparr> aug\<rparr>,
              [read_excel repayments_wb, read_excel writeoffs_wb, aug]) \<and>
           (\<forall>e\<in>set warned. \<exists>m. e = Warning m)"
proof -
  let ?R = "read_excel repayments_wb" and ?W = "read_excel writeoffs_wb"
  obtain warned where agg: "compute_phone_aggregates to_num dtoa ?R = Inr (warned, counts, sums')"
    and warned: "\<forall>e\<in>set warned. \<exists>m. e = Warning m"
    using compute_phone_aggregates_eq [OF pn tr, of to_num dtoa] by (auto simp: counts_def sums'_def)
  have ld: "load_data repayments_wb writeoffs_wb [] = ((0, Suc 0), [?R, ?W])"
    by (simp add: load_data_def alloc_def)
  have mbW: "map_of ?W (py ''mobile'') = Some (StrCol mobile)"
    by (simp add: map_of_read_excel mb)
  then have incol: "py ''mobile'' \<in> set (df_columns [?R, ?W] (Suc 0))"
    by (auto simp: df_columns_def dest: map_of_SomeD intro: rev_image_eqI)
  have "augment dtoa counts sums' (Suc 0) [?R, ?W] =
          Some (length [?R, ?W], [?R, ?W] @ [augmented ([?R, ?W] ! Suc 0) mobile counts sums'])"
    by (rule augment_eq) (simp_all add: mbW)
  then have aug: "augment dtoa counts sums' (Suc 0) [?R, ?W] = Some (Suc (Suc 0), [?R, ?W, aug])"
    by (simp add: aug_def)
  have n2: "[?R, ?W, aug] ! Suc (Suc 0) = aug" by simp
  have gd: "df_getitem [?R, ?W, aug] (Suc (Suc 0)) (py ''Total Writtenoff Derived'') = Some (StrCol derived)"
    using column_names_distinct
    by (simp add: df_getitem_def aug_def map_of_augmented_other map_of_read_excel wd)
  have gr: "df_getitem [?R, ?W, aug] (Suc (Suc 0)) (py ''amount repayed'') =
              Some (FloatCol (map (\<lambda>m. series_get sums' (PyStr (key_of m)) 0) mobile))"
    by (simp add: df_getitem_def aug_def map_of_augmented_repayed)
  let ?evs = "warned @ (if index_of (py ''mobile'') (df_columns [?R, ?W] (Suc 0)) \<noteq> 3
       then [Warning (CHR 0x27 # ''mobile' is not at expected column D; proceeding with the named column.'')]
       else [])"
  have "main to_num dtoa (Some repayments_wb) (Some writeoffs_wb) =
             (\<lparr>events = ?evs,
               outcome = Displayed
                 \<lparr>num_writeoffs = df_len aug, total_written_off = written,
                  total_repaid_for_writeoffs = paid,
                  percent_repaid = (if 0 < written then paid / written * 100 else 0)\<rparr> aug\<rparr>,
              [?R, ?W, aug])"
    using incol
    by (simp add: main_def ld agg aug n2 gd gr truediv_def fillna_to_numeric_StrCol
        fillna_to_numeric_FloatCol written_def paid_def Let_def
        del: to_numeric.simps)
  moreover have "\<forall>e\<in>set ?evs. \<exists>m. e = Warning m"
    using warned by auto
  ultimately show ?thesis by blast
qed

lemma get_counts_scan:
  "series_get (value_counts (map key_of phone)) (PyStr (key_of m)) 0 = match_count phone m"
  by (simp add: series_get_value_counts match_count_def filter_map comp_def del: series_get.simps)

lemma get_sums_scan:
  "series_get (groupby_sum (map key_of phone) (map (amount_of to_num) repaid)) (PyStr (key_of m)) 0 =
     amount_repaid to_num phone repaid m"
proof -
  have z: "zip (map key_of phone) (map (amount_of to_num) repaid) =
             map (\<lambda>(p, a). (key_of p, amount_of to_num a)) (zip phone repaid)"
    by (simp add: zip_map_map)
  show ?thesis
    unfolding series_get_groupby_sum z amount_repaid_def rows_with_key_def
    by (simp add: filter_map comp_def split_def)
qed

lemma amount_repaid_no_match:
  assumes "match_count phone m = 0"
  shows "amount_repaid to_num phone repaid m = 0"
proof -
  from assms have "\<forall>p\<in>set phone. key_of p \<noteq> key_of m"
    by (auto simp: match_count_def filter_empty_conv)
  then have "rows_with_key (key_of m) phone repaid = []"
    by (auto simp: rows_with_key_def filter_empty_conv dest: set_zip_leftD)
  then show ?thesis by (simp add: amount_repaid_def)
qed


lemma main_attached:
  fixes to_num :: "pystr \<Rightarrow> real option"
  assumes "map_of repayments_wb (py ''Phone Number'') = Some phone"
      and "map_of repayments_wb (py ''Total Repaid:'') = Some repaid"
      and "map_of writeoffs_wb (py ''mobile'') = Some mobile"
      and "map_of writeoffs_wb (py ''Total Writtenoff Derived'') = Some derived"
  shows "\<exists>warned k df.
           main to_num dtoa (Some repayments_wb) (Some writeoffs_wb) =
             (\<lparr>events = warned, outcome = Displayed k df\<rparr>,
              [read_excel repayments_wb, read_excel writeoffs_wb, df]) \<and>
           map_of df (py ''Repayment Phone Matches'') =
             Some (IntCol (map (\<lambda>m. int (match_count phone m)) mobile)) \<and>
           map_of df (py ''amount repayed'') =
             Some (FloatCol (map (amount_repaid to_num phone repaid) mobile)) \<and>
           total_written_off k = sum_list (map (amount_of to_num) derived) \<and>
           total_repaid_for_writeoffs k = sum_list (map (amount_repaid to_num phone repaid) mobile) \<and>
           percent_repaid k =
             (if 0 < total_written_off k
              then total_repaid_for_writeoffs k / total_written_off k * 100 else 0)"
proof -
  let ?counts = "value_counts (map key_of phone)"
  let ?sums = "groupby_sum (map key_of phone) (map (amount_of to_num) repaid)"
  let ?aug = "augmented (read_excel writeoffs_wb) mobile ?counts ?sums"
  let ?written = "sum_list (map (amount_of to_num) derived)"
  let ?paid = "sum_list (map (\<lambda>m. series_get ?sums (PyStr (key_of m)) 0) mobile)"
  let ?k = "\<lparr>num_writeoffs = df_len ?aug, total_written_off = ?written,
             total_repaid_for_writeoffs = ?paid,
             percent_repaid = (if 0 < ?written then ?paid / ?written * 100 else 0)\<rparr>"
  obtain warned where m:
    "main to_num dtoa (Some repayments_wb) (Some writeoffs_wb) =
       (\<lparr>events = warned, outcome = Displayed ?k ?aug\<rparr>,
        [read_excel repayments_wb, read_excel writeoffs_wb, ?aug])"
    using main_displayed [OF assms, of to_num dtoa] by blast
  have paid: "?paid = sum_list (map (amount_repaid to_num phone repaid) mobile)"
    by (simp only: get_sums_scan)
  have a: "map_of ?aug (py ''Repayment Phone Matches'') =
             Some (IntCol (map (\<lambda>m. int (match_count phone m)) mobile))"
    by (simp only: map_of_augmented_matches get_counts_scan)
  have b: "map_of ?aug (py ''amount repayed'') =
             Some (FloatCol (map (amount_repaid to_num phone repaid) mobile))"
    by (simp only: map_of_augmented_repayed get_sums_scan)
  have c: "total_written_off ?k = ?written" by simp
  have d: "total_repaid_for_writeoffs ?k = sum_list (map (amount_repaid to_num phone repaid) mobile)"
    using paid by simp
  have e: "percent_repaid ?k =
             (if 0 < total_written_off ?k
              then total_repaid_for_writeoffs ?k / total_written_off ?k * 100 else 0)"
    by simp
  from m a b c d e show ?thesis by blast
qed


text \<open>
  C9. For every write-off row \<open>i\<close> of the table shown, a nonzero attached amount
  comes with a match count of at least 1, and a match count of 0 with the amount 0.
\<close>

theorem repayed_amount_needs_match:
  fixes to_num :: "pystr \<Rightarrow> real option"
  assumes "map_of repayments_wb (py ''Phone Number'') = Some phone"
      and "map_of repayments_wb (py ''Total Repaid:'') = Some repaid"
      and "map_of writeoffs_wb (py ''mobile'') = Some mobile"
      and "map_of writeoffs_wb (py ''Total Writtenoff Derived'') = Some derived"
      and "i < length mobile"
  shows "\<exists>warned k df h matches repayed.
           main to_num dtoa (Some repayments_wb) (Some writeoffs_wb) =
             (\<lparr>events = warned, outcome = Displayed k df\<rparr>, h) \<and>
           map_of df (py ''Repayment Phone Matches'') = Some (IntCol matches) \<and>
           map_of df (py ''amount repayed'') = Some (FloatCol repayed) \<and>
           length matches = length mobile \<and> length repayed = length mobile \<and>
           (repayed ! i \<noteq> 0 \<longrightarrow> 1 \<le> matches ! i) \<and>
           (matches ! i = 0 \<longrightarrow> repayed ! i = 0)"
proof -
  obtain warned k df where m:
    "main to_num dtoa (Some repayments_wb) (Some writeoffs_wb) =
       (\<lparr>events = warned, outcome = Displayed k df\<rparr>,
        [read_excel repayments_wb, read_excel writeoffs_wb, df])"
    "map_of df (py ''Repayment Phone Matches'') =
       Some (IntCol (map (\<lambda>m. int (match_count phone m)) mobile))"
    "map_of df (py ''amount repayed'') =
       Some (FloatCol (map (amount_repaid to_num phone repaid) mobile))"
    using main_attached [OF assms(1-4), of to_num dtoa] by blast
  let ?ms = "map (\<lambda>m. int (match_count phone m)) mobile"
  let ?as = "map (amount_repaid to_num phone repaid) mobile"
  have z: "?as ! i = 0" if "?ms ! i = 0"
    using that assms(5) amount_repaid_no_match [of phone "mobile ! i" to_num repaid] by simp
  then have nz: "1 \<le> ?ms ! i" if "?as ! i \<noteq> 0"
    using that assms(5) by (cases "match_count phone (mobile ! i)") auto
  have "length ?ms = length mobile" "length ?as = length mobile" by simp_all
  with m z nz show ?thesis by blast
qed

text \<open>
  C4. When the two columns of the repayments exist, the aggregates are returned, and
  the counts of all keys add up to the number of repayment rows, whatever the amounts read
  as and whatever the keys are; each key has one entry, which counts the rows of that key.
\<close>

theorem count_table_conserves_rows:
  assumes "map_of df (py ''Phone Number'') = Some phone"
      and "map_of df (py ''Total Repaid:'') = Some repaid"
  shows "\<exists>warned counts sums'.
           compute_phone_aggregates to_num dtoa df = Inr (warned, counts, sums') \<and>
           sum_list (map snd counts) = col_length phone \<and>
           distinct (map fst counts) \<and>
           (\<forall>key. series_get counts (PyStr key) 0 =
                    length (filter (\<lambda>v. extract_last_nine_digits v = key) (python_values dtoa phone)))"
proof -
  let ?keys = "map extract_last_nine_digits (python_values dtoa phone)"
  have len: "length (python_values dtoa phone) = col_length phone"
    by (cases phone) simp_all
  have a: "sum_list (map snd (value_counts ?keys)) = col_length phone"
    using sum_counts_fold [of ?keys "[]"] by (simp add: value_counts_def len)
  have b: "distinct (map fst (value_counts ?keys))"
    using distinct_fold_counts [of "[]" ?keys] by (simp add: value_counts_def)
  have c: "series_get (value_counts ?keys) (PyStr key) 0 =
             length (filter (\<lambda>v. extract_last_nine_digits v = key) (python_values dtoa phone))" for key
    by (simp add: series_get_value_counts filter_map comp_def del: series_get.simps)
  show ?thesis
    using assms a b c by (simp add: compute_phone_aggregates_def Let_def del: series_get.simps)
qed

lemmas eval_defs =
  main_def load_data_def alloc_def compute_phone_aggregates_def augment_def df_copy_def
  df_getitem_def df_setitem_def df_drop_def df_columns_def read_excel_def index_of_def
  value_counts_def groupby_sum_def fillna_def truediv_def extract_last_nine_digits_def
  re_sub_nondigits_def last_nine_def is_decimal_def Nd_zeros_def py_def Let_def

lemma read_plain_values:
  "read_plain (py ''100'') = Some 100" "read_plain (py ''50'') = Some 50"
  "read_plain (py ''200'') = Some 200" "read_plain (py ''60'') = Some 60"
  "read_plain (py ''n/a'') = None"
  by (simp_all add: read_plain_def py_def ascii_digit_def)

lemma scenario_keys:
  "key_of (Some (py ''0712345678'')) = py ''712345678''"
  "key_of (Some (py ''255712345678'')) = py ''712345678''"
  "key_of (Some (py ''+255712345678'')) = py ''712345678''"
  by (simp_all add: key_of_def extract_last_nine_digits_def re_sub_nondigits_def last_nine_def
      is_decimal_def Nd_zeros_def py_def)

text \<open>
  C2. The end-to-end scenario, for every reading of numbers that reads \<open>100\<close>,
  \<open>50\<close> and \<open>200\<close> as these numbers: both repayment phones have the key
  \<open>712345678\<close>, the count of that key is 2 and its sum 150, the write-off row gets
  the match count 2 and the amount 150, and the totals are 200 and 150, the percentage 75.
\<close>

theorem scenario_end_to_end:
  fixes to_num :: "pystr \<Rightarrow> real option"
  assumes "to_num (py ''100'') = Some 100" and "to_num (py ''50'') = Some 50"
      and "to_num (py ''200'') = Some 200"
  shows "extract_last_nine_digits (PyStr (py ''0712345678'')) = py ''712345678'' \<and>
         extract_last_nine_digits (PyStr (py ''255712345678'')) = py ''712345678'' \<and>
         (\<exists>warned counts sums'.
            compute_phone_aggregates to_num dtoa (read_excel scenario_repayments) =
              Inr (warned, counts, sums') \<and>
            series_get counts (PyStr (py ''712345678'')) 0 = 2 \<and>
            series_get sums' (PyStr (py ''712345678'')) 0 = 150) \<and>
         (\<exists>warned h.
            main to_num dtoa (Some scenario_repayments) (Some scenario_writeoffs) =
              (\<lparr>events = warned,
                outcome = Displayed
                  \<lparr>num_writeoffs = 1, total_written_off = 200,
                   total_repaid_for_writeoffs = 150, percent_repaid = 75\<rparr>
                  (read_excel scenario_writeoffs @
                   [(py ''Repayment Phone Matches'', IntCol [2]),
                    (py ''amount repayed'', FloatCol [150])])\<rparr>, h))"
proof -
  have a: "extract_last_nine_digits (PyStr (py ''0712345678'')) = py ''712345678''"
          "extract_last_nine_digits (PyStr (py ''255712345678'')) = py ''712345678''"
    using scenario_keys by (simp_all add: key_of_def)
  have b: "\<exists>warned counts sums'.
            compute_phone_aggregates to_num dtoa (read_excel scenario_repayments) =
              Inr (warned, counts, sums') \<and>
            series_get counts (PyStr (py ''712345678'')) 0 = 2 \<and>
            series_get sums' (PyStr (py ''712345678'')) 0 = 150"
    using assms by (simp add: scenario_repayments_def eval_defs)
  have c: "\<exists>warned h.
            main to_num dtoa (Some scenario_repayments) (Some scenario_writeoffs) =
              (\<lparr>events = warned,
                outcome = Displayed
                  \<lparr>num_writeoffs = 1, total_written_off = 200,
                   total_repaid_for_writeoffs = 150, percent_repaid = 75\<rparr>
                  (read_excel scenario_writeoffs @
                   [(py ''Repayment Phone Matches'', IntCol [2]),
                    (py ''amount repayed'', FloatCol [150])])\<rparr>, h)"
    using assms by (simp add: scenario_repayments_def scenario_writeoffs_def eval_defs)
  from a b c show ?thesis by blast
qed

text \<open>
  C5. On every input, \<open>main\<close> never divides by zero, and when it shows the
  metrics the percentage is the total repaid over the total written off times 100 if the
  total written off is positive, and 0 otherwise; so it is 0 when the total written off
  is 0, whatever the total repaid.
\<close>

theorem percent_repaid_guarded:
  "outcome (fst (main to_num dtoa repayments_xlsx writeoffs_xlsx)) \<noteq> Uncaught ZeroDivisionError \<and>
   (\<forall>k df. outcome (fst (main to_num dtoa repayments_xlsx writeoffs_xlsx)) = Displayed k df \<longrightarrow>
      percent_repaid k =
        (if 0 < total_written_off k
         then total_repaid_for_writeoffs k / total_written_off k * 100 else 0) \<and>
      (total_written_off k = 0 \<longrightarrow> percent_repaid k = 0))"
  by (auto simp: main_def Let_def truediv_def
      split: option.splits sum.splits prod.splits if_splits)

lemma sublist_literals:
  "sublist ''Phone Number'' ''Expected 'Phone Number' column (column S) in Repayments.xlsx.''"
  "sublist ''Repayments.xlsx'' ''Expected 'Phone Number' column (column S) in Repayments.xlsx.''"
  "sublist ''Total Repaid:'' ''Expected 'Total Repaid:' column in Repayments.xlsx.''"
  "sublist ''Repayments.xlsx'' ''Expected 'Total Repaid:' column in Repayments.xlsx.''"
  "sublist ''mobile'' ''Expected 'mobile' column (column D) in writeoffs.xlsx.''"
  "sublist ''writeoffs.xlsx'' ''Expected 'mobile' column (column D) in writeoffs.xlsx.''"
  by (simp_all add: sublist_Cons_right)

lemma sublist_str_KeyError: "sublist xs msg \<Longrightarrow> sublist xs (str_KeyError msg)"
  unfolding str_KeyError_def
  by (metis sublist_Cons_right sublist_appendI sublist_order.order.trans sublist_append_rightI)

lemma main_missing_phone:
  assumes "map_of repayments_wb (py ''Phone Number'') = None"
  shows "main to_num dtoa (Some repayments_wb) (Some writeoffs_wb) =
           (\<lparr>events = [Error (str_KeyError ''Expected 'Phone Number' column (column S) in Repayments.xlsx.'')],
             outcome = Stopped\<rparr>,
            [read_excel repayments_wb, read_excel writeoffs_wb])"
  using assms
  by (simp add: main_def load_data_def alloc_def compute_phone_aggregates_def map_of_read_excel)

lemma main_missing_repaid:
  assumes "map_of repayments_wb (py ''Phone Number'') = Some phone"
      and "map_of repayments_wb (py ''Total Repaid:'') = None"
  shows "main to_num dtoa (Some repayments_wb) (Some writeoffs_wb) =
           (\<lparr>events = [Error (str_KeyError ''Expected 'Total Repaid:' column in Repayments.xlsx.'')],
             outcome = Stopped\<rparr>,
            [read_excel repayments_wb, read_excel writeoffs_wb])"
  using assms
  by (simp add: main_def load_data_def alloc_def compute_phone_aggregates_def map_of_read_excel)

lemma main_missing_mobile:
  assumes "map_of repayments_wb (py ''Phone Number'') = Some phone"
      and "map_of repayments_wb (py ''Total Repaid:'') = Some repaid"
      and "py ''mobile'' \<notin> fst ` set writeoffs_wb"
  shows "\<exists>warned.
           main to_num dtoa (Some repayments_wb) (Some writeoffs_wb) =
             (\<lparr>events = warned @ [Error ''Expected 'mobile' column (column D) in writeoffs.xlsx.''],
               outcome = Stopped\<rparr>,
              [read_excel repayments_wb, read_excel writeoffs_wb]) \<and>
           (\<forall>e\<in>set warned. \<exists>m. e = Warning m)"
proof -
  obtain warned where agg:
    "compute_phone_aggregates to_num dtoa (read_excel repayments_wb) =
       Inr (warned, value_counts (map key_of phone),
            groupby_sum (map key_of phone) (map (amount_of to_num) repaid))"
    and warned: "\<forall>e\<in>set warned. \<exists>m. e = Warning m"
    using compute_phone_aggregates_eq [OF assms(1,2), of to_num dtoa] by blast
  have "main to_num dtoa (Some repayments_wb) (Some writeoffs_wb) =
             (\<lparr>events = warned @ [Error ''Expected 'mobile' column (column D) in writeoffs.xlsx.''],
               outcome = Stopped\<rparr>,
              [read_excel repayments_wb, read_excel writeoffs_wb])"
    using assms(3)
    by (simp add: main_def load_data_def alloc_def agg df_columns_def columns_read_excel)
  with warned show ?thesis by blast
qed

text \<open>
  C6. If \<open>Phone Number\<close> or \<open>Total Repaid:\<close> is no column of the repayments,
  or \<open>mobile\<close> no column of the write-offs, \<open>main\<close> stops with one error message,
  after position warnings at most; the message names a column that is missing and the
  file it was expected in; no table is shown and no frame exists besides the two loaded.
\<close>

theorem missing_column_halts:
  assumes "py ''Phone Number'' \<notin> fst ` set repayments_wb \<or>
           py ''Total Repaid:'' \<notin> fst ` set repayments_wb \<or>
           py ''mobile'' \<notin> fst ` set writeoffs_wb"
  shows "\<exists>warned msg name file.
           main to_num dtoa (Some repayments_wb) (Some writeoffs_wb) =
             (\<lparr>events = warned @ [Error msg], outcome = Stopped\<rparr>,
              [read_excel repayments_wb, read_excel writeoffs_wb]) \<and>
           (\<forall>e\<in>set warned. \<exists>m. e = Warning m) \<and>
           sublist name msg \<and> sublist file msg \<and>
           (name = ''Phone Number'' \<and> file = ''Repayments.xlsx'' \<and>
              py name \<notin> fst ` set repayments_wb \<or>
            name = ''Total Repaid:'' \<and> file = ''Repayments.xlsx'' \<and>
              py name \<notin> fst ` set repayments_wb \<or>
            name = ''mobile'' \<and> file = ''writeoffs.xlsx'' \<and>
              py name \<notin> fst ` set writeoffs_wb)"
proof (cases "map_of repayments_wb (py ''Phone Number'')")
  case None
  let ?msg = "str_KeyError ''Expected 'Phone Number' column (column S) in Repayments.xlsx.''"
  have "main to_num dtoa (Some repayments_wb) (Some writeoffs_wb) =
          (\<lparr>events = [] @ [Error ?msg], outcome = Stopped\<rparr>,
           [read_excel repayments_wb, read_excel writeoffs_wb])"
    using main_missing_phone [OF None] by simp
  moreover have "sublist ''Phone Number'' ?msg" "sublist ''Repayments.xlsx'' ?msg"
    by (simp_all add: sublist_str_KeyError sublist_literals)
  moreover have "py ''Phone Number'' \<notin> fst ` set repayments_wb"
    using None by (simp add: map_of_eq_None_iff)
  moreover have "\<forall>e\<in>set []. \<exists>m. e = Warning m" by simp
  ultimately show ?thesis by blast
next
  case (Some phone)
  note pn = this
  show ?thesis
  proof (cases "map_of repayments_wb (py ''Total Repaid:'')")
    case None
    let ?msg = "str_KeyError ''Expected 'Total Repaid:' column in Repayments.xlsx.''"
    have "main to_num dtoa (Some repayments_wb) (Some writeoffs_wb) =
            (\<lparr>events = [] @ [Error ?msg], outcome = Stopped\<rparr>,
             [read_excel repayments_wb, read_excel writeoffs_wb])"
      using main_missing_repaid [OF pn None] by simp
    moreover have "sublist ''Total Repaid:'' ?msg" "sublist ''Repayments.xlsx'' ?msg"
      by (simp_all add: sublist_str_KeyError sublist_literals)
    moreover have "py ''Total Repaid:'' \<notin> fst ` set repayments_wb"
      using None by (simp add: map_of_eq_None_iff)
    moreover have "\<forall>e\<in>set []. \<exists>m. e = Warning m" by simp
    ultimately show ?thesis by blast
  next
    case (Some repaid)
    from pn Some have "py ''Phone Number'' \<in> fst ` set repayments_wb"
      "py ''Total Repaid:'' \<in> fst ` set repayments_wb"
      by (auto dest!: map_of_SomeD intro: rev_image_eqI)
    with assms have mb: "py ''mobile'' \<notin> fst ` set writeoffs_wb" by blast
    let ?msg = "''Expected 'mobile' column (column D) in writeoffs.xlsx.''"
    obtain warned where
      "main to_num dtoa (Some repayments_wb) (Some writeoffs_wb) =
         (\<lparr>events = warned @ [Error ?msg], outcome = Stopped\<rparr>,
          [read_excel repayments_wb, read_excel writeoffs_wb])"
      "\<forall>e\<in>set warned. \<exists>m. e = Warning m"
      using main_missing_mobile [OF pn Some mb, of to_num dtoa] by blast
    moreover have "sublist ''mobile'' ?msg" "sublist ''writeoffs.xlsx'' ?msg"
      by (simp_all add: sublist_literals)
    ultimately show ?thesis using mb by blast
  qed
qed

lemma update_fresh: "k \<notin> fst ` set al \<Longrightarrow> AList.update k v al = al @ [(k, v)]"
  by (induction al) auto

lemma delete_append: "AList.delete k (al @ bl) = AList.delete k al @ AList.delete k bl"
  by (simp add: AList.delete_eq)

lemma augmented_fresh:
  assumes "py ''last9_mobile'' \<notin> fst ` set df"
      and "py ''Repayment Phone Matches'' \<notin> fst ` set df"
      and "py ''amount repayed'' \<notin> fst ` set df"
  shows "augmented df mobile counts sums' =
           df @ [(py ''Repayment Phone Matches'',
                  IntCol (map (\<lambda>m. int (series_get counts (PyStr (key_of m)) 0)) mobile)),
                 (py ''amount repayed'',
                  FloatCol (map (\<lambda>m. series_get sums' (PyStr (key_of m)) 0) mobile))]"
  using assms column_names_distinct
  by (simp add: augmented_def update_fresh delete_append)

text \<open>
  C7, as the code has it. When the write-offs have no column named
  \<open>last9_mobile\<close>, \<open>Repayment Phone Matches\<close> or \<open>amount repayed\<close>, the table
  shown is the loaded table followed by the column of the match counts and the column of
  the amounts, in this order, one value per row; and the two loaded frames are in memory
  as they were loaded: the derived columns are written to a copy.
\<close>

theorem augmented_appends_two_columns:
  fixes to_num :: "pystr \<Rightarrow> real option"
  assumes "map_of repayments_wb (py ''Phone Number'') = Some phone"
      and "map_of repayments_wb (py ''Total Repaid:'') = Some repaid"
      and "map_of writeoffs_wb (py ''mobile'') = Some mobile"
      and "map_of writeoffs_wb (py ''Total Writtenoff Derived'') = Some derived"
      and "py ''last9_mobile'' \<notin> fst ` set writeoffs_wb"
      and "py ''Repayment Phone Matches'' \<notin> fst ` set writeoffs_wb"
      and "py ''amount repayed'' \<notin> fst ` set writeoffs_wb"
  shows "\<exists>warned k matches repayed.
           main to_num dtoa (Some repayments_wb) (Some writeoffs_wb) =
             (\<lparr>events = warned,
               outcome = Displayed k
                 (read_excel writeoffs_wb @
                  [(py ''Repayment Phone Matches'', IntCol matches),
                   (py ''amount repayed'', FloatCol repayed)])\<rparr>,
              [read_excel repayments_wb, read_excel writeoffs_wb,
               read_excel writeoffs_wb @
                 [(py ''Repayment Phone Matches'', IntCol matches),
                  (py ''amount repayed'', FloatCol repayed)]]) \<and>
           length matches = length mobile \<and> length repayed = length mobile"
proof -
  have fr: "py ''last9_mobile'' \<notin> fst ` set (read_excel writeoffs_wb)"
    "py ''Repayment Phone Matches'' \<notin> fst ` set (read_excel writeoffs_wb)"
    "py ''amount repayed'' \<notin> fst ` set (read_excel writeoffs_wb)"
    using assms(5-7) columns_read_excel [of writeoffs_wb]
    by (metis list.set_map)+
  show ?thesis
    using main_displayed [OF assms(1-4), of to_num dtoa]
    unfolding augmented_fresh [OF fr]
    by (metis length_map)
qed

text \<open>
  C7 as stated fails on write-offs that have columns of the names the code writes to: the
  loaded column \<open>last9_mobile\<close> is gone from the table shown, the loaded column
  \<open>Repayment Phone Matches\<close> holds the new counts where it stood, and one column
  is added, not two.
\<close>

theorem augmented_overwrites_reserved_columns:
  "outcome (fst (main read_plain no_float_digits (Some scenario_repayments) (Some reexported_writeoffs))) =
     Displayed
       \<lparr>num_writeoffs = 1, total_written_off = 200, total_repaid_for_writeoffs = 150,
        percent_repaid = 75\<rparr>
       [(py ''mobile'', StrCol [Some (py ''+255712345678'')]),
        (py ''Repayment Phone Matches'', IntCol [2]),
        (py ''Total Writtenoff Derived'', StrCol [Some (py ''200'')]),
        (py ''amount repayed'', FloatCol [150])] \<and>
   \<not> prefix (read_excel reexported_writeoffs)
       [(py ''mobile'', StrCol [Some (py ''+255712345678'')]),
        (py ''Repayment Phone Matches'', IntCol [2]),
        (py ''Total Writtenoff Derived'', StrCol [Some (py ''200'')]),
        (py ''amount repayed'', FloatCol [150])]"
  by (simp add: scenario_repayments_def reexported_writeoffs_def eval_defs read_plain_def
      ascii_digit_def)

text \<open>
  C10. For some input the percentage is above 100: two write-off rows of 60 each
  share their key with one repayment of 100; each row gets the whole 100, the total
  repaid is 200 against 120 written off.
\<close>

theorem percent_repaid_exceeds_100:
  fixes to_num :: "pystr \<Rightarrow> real option"
  assumes "to_num (py ''100'') = Some 100" and "to_num (py ''60'') = Some 60"
  shows "\<exists>warned k df h.
           main to_num dtoa (Some shared_repayments) (Some shared_writeoffs) =
             (\<lparr>events = warned, outcome = Displayed k df\<rparr>, h) \<and>
           map_of df (py ''Repayment Phone Matches'') = Some (IntCol [1, 1]) \<and>
           map_of df (py ''amount repayed'') = Some (FloatCol [100, 100]) \<and>
           total_written_off k = 120 \<and> total_repaid_for_writeoffs k = 200 \<and>
           100 < percent_repaid k"
  using assms by (simp add: shared_repayments_def shared_writeoffs_def eval_defs)

lemma scenario_columns:
  "map_of scenario_repayments (py ''Phone Number'') =
     Some [Some (py ''0712345678''), Some (py ''255712345678'')]"
  "map_of scenario_repayments (py ''Total Repaid:'') = Some [Some (py ''100''), Some (py ''50'')]"
  "map_of scenario_writeoffs (py ''mobile'') = Some [Some (py ''+255712345678'')]"
  "map_of scenario_writeoffs (py ''Total Writtenoff Derived'') = Some [Some (py ''200'')]"
  "py ''last9_mobile'' \<notin> fst ` set scenario_writeoffs"
  "py ''Repayment Phone Matches'' \<notin> fst ` set scenario_writeoffs"
  "py ''amount repayed'' \<notin> fst ` set scenario_writeoffs"
  by (simp_all add: scenario_repayments_def scenario_writeoffs_def py_def)

theorem scenario_end_to_end_witness:
  "read_plain (py ''100'') = Some 100 \<and> read_plain (py ''50'') = Some 50 \<and>
   read_plain (py ''200'') = Some 200 \<and>
   (\<exists>warned h.
      main read_plain no_float_digits (Some scenario_repayments) (Some scenario_writeoffs) =
        (\<lparr>events = warned,
          outcome = Displayed
            \<lparr>num_writeoffs = 1, total_written_off = 200,
             total_repaid_for_writeoffs = 150, percent_repaid = 75\<rparr>
            (read_excel scenario_writeoffs @
             [(py ''Repayment Phone Matches'', IntCol [2]),
              (py ''amount repayed'', FloatCol [150])])\<rparr>, h))"
  using scenario_end_to_end [OF read_plain_values(1,2,3), of no_float_digits] read_plain_values(1,2,3)
  by blast


theorem repayed_amount_needs_match_witness:
  "map_of scenario_repayments (py ''Phone Number'') =
     Some [Some (py ''0712345678''), Some (py ''255712345678'')] \<and>
   map_of scenario_repayments (py ''Total Repaid:'') = Some [Some (py ''100''), Some (py ''50'')] \<and>
   map_of scenario_writeoffs (py ''mobile'') = Some [Some (py ''+255712345678'')] \<and>
   map_of scenario_writeoffs (py ''Total Writtenoff Derived'') = Some [Some (py ''200'')] \<and>
   (0::nat) < length [Some (py ''+255712345678'')] \<and>
   (\<exists>warned k df h matches repayed.
      main read_plain no_float_digits (Some scenario_repayments) (Some scenario_writeoffs) =
        (\<lparr>events = warned, outcome = Displayed k df\<rparr>, h) \<and>
      map_of df (py ''Repayment Phone Matches'') = Some (IntCol matches) \<and>
      map_of df (py ''amount repayed'') = Some (FloatCol repayed) \<and>
      (repayed ! 0 = 0 \<or> 1 \<le> matches ! 0))"
proof -
  have h5: "(0::nat) < length [Some (py ''+255712345678'')]" by simp
  show ?thesis
    using repayed_amount_needs_match [OF scenario_columns(1-4) h5, of read_plain no_float_digits]
      scenario_columns(1-4) h5
    by blast
qed

theorem count_table_conserves_rows_witness:
  "map_of (read_excel scenario_repayments) (py ''Phone Number'') =
     Some (StrCol [Some (py ''0712345678''), Some (py ''255712345678'')]) \<and>
   map_of (read_excel scenario_repayments) (py ''Total Repaid:'') =
     Some (StrCol [Some (py ''100''), Some (py ''50'')]) \<and>
   (\<exists>warned counts sums'.
      compute_phone_aggregates read_plain no_float_digits (read_excel scenario_repayments) =
        Inr (warned, counts, sums') \<and>
      sum_list (map snd counts) = 2)"
proof -
  have h1: "map_of (read_excel scenario_repayments) (py ''Phone Number'') =
     Some (StrCol [Some (py ''0712345678''), Some (py ''255712345678'')])"
    by (simp add: map_of_read_excel scenario_columns)
  have h2: "map_of (read_excel scenario_repayments) (py ''Total Repaid:'') =
     Some (StrCol [Some (py ''100''), Some (py ''50'')])"
    by (simp add: map_of_read_excel scenario_columns)
  have "col_length (StrCol [Some (py ''0712345678''), Some (py ''255712345678'')]) = 2" by simp
  with count_table_conserves_rows [OF h1 h2, of read_plain no_float_digits] h1 h2 show ?thesis
    by (metis (no_types, lifting))
qed

lemma unreadable_run:
  "outcome (fst (main read_plain no_float_digits (Some scenario_repayments) (Some unreadable_writeoffs))) =
     Displayed
       \<lparr>num_writeoffs = 1, total_written_off = 0, total_repaid_for_writeoffs = 150,
        percent_repaid = 0\<rparr>
       (read_excel unreadable_writeoffs @
        [(py ''Repayment Phone Matches'', IntCol [2]), (py ''amount repayed'', FloatCol [150])])"
  by (simp add: scenario_repayments_def unreadable_writeoffs_def eval_defs read_plain_def
      ascii_digit_def)

theorem percent_repaid_guarded_witness:
  "outcome (fst (main read_plain no_float_digits (Some scenario_repayments) (Some unreadable_writeoffs))) =
     Displayed
       \<lparr>num_writeoffs = 1, total_written_off = 0, total_repaid_for_writeoffs = 150,
        percent_repaid = 0\<rparr>
       (read_excel unreadable_writeoffs @
        [(py ''Repayment Phone Matches'', IntCol [2]), (py ''amount repayed'', FloatCol [150])]) \<and>
   outcome (fst (main read_plain no_float_digits (Some scenario_repayments) (Some unreadable_writeoffs)))
     \<noteq> Uncaught ZeroDivisionError \<and>
   percent_repaid
     \<lparr>num_writeoffs = 1, total_written_off = 0, total_repaid_for_writeoffs = 150,
      percent_repaid = 0\<rparr> = 0"
  using percent_repaid_guarded [of read_plain no_float_digits "Some scenario_repayments" "Some unreadable_writeoffs"]
    unreadable_run
  by simp

theorem missing_column_halts_witness:
  "py ''mobile'' \<notin> fst ` set headless_writeoffs \<and>
   (\<exists>warned msg.
      main read_plain no_float_digits (Some scenario_repayments) (Some headless_writeoffs) =
        (\<lparr>events = warned @ [Error msg], outcome = Stopped\<rparr>,
         [read_excel scenario_repayments, read_excel headless_writeoffs]))"
proof -
  have m: "py ''mobile'' \<notin> fst ` set headless_writeoffs"
    by (simp add: headless_writeoffs_def py_def)
  then have h: "py ''Phone Number'' \<notin> fst ` set scenario_repayments \<or>
    py ''Total Repaid:'' \<notin> fst ` set scenario_repayments \<or>
    py ''mobile'' \<notin> fst ` set headless_writeoffs"
    by blast
  from missing_column_halts [OF h, of read_plain no_float_digits] m show ?thesis by blast
qed

theorem augmented_appends_two_columns_witness:
  "map_of scenario_repayments (py ''Phone Number'') =
     Some [Some (py ''0712345678''), Some (py ''255712345678'')] \<and>
   map_of scenario_repayments (py ''Total Repaid:'') = Some [Some (py ''100''), Some (py ''50'')] \<and>
   map_of scenario_writeoffs (py ''mobile'') = Some [Some (py ''+255712345678'')] \<and>
   map_of scenario_writeoffs (py ''Total Writtenoff Derived'') = Some [Some (py ''200'')] \<and>
   py ''last9_mobile'' \<notin> fst ` set scenario_writeoffs \<and>
   py ''Repayment Phone Matches'' \<notin> fst ` set scenario_writeoffs \<and>
   py ''amount repayed'' \<notin> fst ` set scenario_writeoffs \<and>
   (\<exists>warned k matches repayed.
      main read_plain no_float_digits (Some scenario_repayments) (Some scenario_writeoffs) =
        (\<lparr>events = warned,
          outcome = Displayed k
            (read_excel scenario_writeoffs @
             [(py ''Repayment Phone Matches'', IntCol matches),
              (py ''amount repayed'', FloatCol repayed)])\<rparr>,
         [read_excel scenario_repayments, read_excel scenario_writeoffs,
          read_excel scenario_writeoffs @
            [(py ''Repayment Phone Matches'', IntCol matches),
             (py ''amount repayed'', FloatCol repayed)]]))"
  using augmented_appends_two_columns [OF scenario_columns, of read_plain no_float_digits] scenario_columns
  by blast

theorem percent_repaid_exceeds_100_witness:
  "read_plain (py ''100'') = Some 100 \<and> read_plain (py ''60'') = Some 60 \<and>
   (\<exists>warned k df h.
      main read_plain no_float_digits (Some shared_repayments) (Some shared_writeoffs) =
        (\<lparr>events = warned, outcome = Displayed k df\<rparr>, h) \<and>
      map_of df (py ''amount repayed'') = Some (FloatCol [100, 100]) \<and>
      total_written_off k = 120 \<and> total_repaid_for_writeoffs k = 200 \<and>
      100 < percent_repaid k)"
  using percent_repaid_exceeds_100 [OF read_plain_values(1,4), of no_float_digits] read_plain_values(1,4)
  by blast

end
